theory Spec2Isabelle
  imports Complex_Main "HOL-Library.Char_ord" "HOL-Library.Sublist"
begin

section \<open>Python values, dictionaries and exceptions\<close>

text \<open>
  The tools of \<^verbatim>\<open>deepagents_cli/tools.py\<close> exchange JSON-like Python values: the
  search responses, the HTTP outcomes and the fetch results are dictionaries with string
  keys. A dictionary is an association list in insertion order; lookup takes the first
  binding of a key and assignment overwrites it in place or appends a new binding.
\<close>

datatype pyval =
    PNone
  | PBool bool
  | PInt int
  | PFloat real
  | PStr string
  | PList "pyval list"
  | PDict "(string \<times> pyval) list"

type_synonym pydict = "(string \<times> pyval) list"

definition has_key :: "pydict \<Rightarrow> string \<Rightarrow> bool" where
  \<comment> \<open>\<^verbatim>\<open>k in d\<close>\<close>
  "has_key d k = (map_of d k \<noteq> None)"

definition dict_get :: "pydict \<Rightarrow> string \<Rightarrow> pyval \<Rightarrow> pyval" where
  \<comment> \<open>\<^verbatim>\<open>d.get(k, default)\<close>\<close>
  "dict_get d k dflt = (case map_of d k of None \<Rightarrow> dflt | Some v \<Rightarrow> v)"

fun dict_set :: "pydict \<Rightarrow> string \<Rightarrow> pyval \<Rightarrow> pydict" where
  \<comment> \<open>\<^verbatim>\<open>d[k] = v\<close>\<close>
  "dict_set [] k v = [(k, v)]"
| "dict_set ((k', v') # kvs) k v =
     (if k' = k then (k, v) # kvs else (k', v') # dict_set kvs k v)"

definition keys :: "pydict \<Rightarrow> string list" where
  "keys d = map fst d"

fun type_name :: "pyval \<Rightarrow> string" where
  "type_name PNone = ''NoneType''"
| "type_name (PBool _) = ''bool''"
| "type_name (PInt _) = ''int''"
| "type_name (PFloat _) = ''float''"
| "type_name (PStr _) = ''str''"
| "type_name (PList _) = ''list''"
| "type_name (PDict _) = ''dict''"

text \<open>
  Exceptions are values: a class and the text that \<^verbatim>\<open>str(e)\<close> gives. Only classes
  below \<^verbatim>\<open>Exception\<close> are modelled; \<^verbatim>\<open>Timeout\<close>, \<^verbatim>\<open>ConnectionError\<close>,
  \<^verbatim>\<open>HTTPError\<close> and \<^verbatim>\<open>JSONDecodeError\<close> are the classes of
  \<^verbatim>\<open>requests.exceptions\<close>, all below \<^verbatim>\<open>RequestException\<close>.
\<close>

datatype exn_class =
    Timeout | ConnectionError | HTTPError | JSONDecodeError | RequestException
  | AttributeError | TypeError | ValueError | NameError | Exception

datatype exn = Raised exn_class string

fun exn_str :: "exn \<Rightarrow> string" where
  \<comment> \<open>\<^verbatim>\<open>f"{e!s}"\<close>\<close>
  "exn_str (Raised c msg) = msg"

fun issubclass :: "exn_class \<Rightarrow> exn_class \<Rightarrow> bool" where
  "issubclass c Exception = True"
| "issubclass c RequestException =
     (c = Timeout \<or> c = ConnectionError \<or> c = HTTPError \<or> c = JSONDecodeError
      \<or> c = RequestException)"
| "issubclass c ValueError = (c = JSONDecodeError \<or> c = ValueError)"
| "issubclass c d = (c = d)"

fun isinstance :: "exn \<Rightarrow> exn_class \<Rightarrow> bool" where
  "isinstance (Raised c msg) d = issubclass c d"

subsection \<open>Strings of integers, slices\<close>

definition digit_char :: "nat \<Rightarrow> char" where
  "digit_char d = char_of (48 + d)"

function str_nat :: "nat \<Rightarrow> string" where
  "str_nat n = (if n < 10 then [digit_char n] else str_nat (n div 10) @ [digit_char (n mod 10)])"
  by pat_completeness auto
termination
  by (relation "measure (\<lambda>n. n)") auto

declare str_nat.simps [simp del]

definition str_int :: "int \<Rightarrow> string" where
  \<comment> \<open>\<^verbatim>\<open>str(i)\<close> of a Python int\<close>
  "str_int i = (if i < 0 then CHR ''-'' # str_nat (nat (- i)) else str_nat (nat i))"

definition slice_to :: "'a list \<Rightarrow> int \<Rightarrow> 'a list" where
  \<comment> \<open>\<^verbatim>\<open>xs[:n]\<close>: a negative bound counts from the end\<close>
  "slice_to xs n =
     (if n < 0 then take (nat (int (length xs) + n)) xs else take (nat n) xs)"

definition quoted :: "string \<Rightarrow> string" where
  \<comment> \<open>the text between two apostrophes, as CPython prints type and attribute names\<close>
  "quoted s = CHR 0x27 # s @ [CHR 0x27]"

fun py_get :: "pyval \<Rightarrow> string \<Rightarrow> pyval \<Rightarrow> exn + pyval" where
  \<comment> \<open>\<^verbatim>\<open>v.get(k, default)\<close>: only a dict has the method\<close>
  "py_get (PDict d) k dflt = Inr (dict_get d k dflt)"
| "py_get v k dflt =
     Inl (Raised AttributeError
            (quoted (type_name v) @ '' object has no attribute '' @ quoted ''get''))"

fun py_slice_iter :: "pyval \<Rightarrow> int \<Rightarrow> exn + pyval list" where
  \<comment> \<open>the elements that \<^verbatim>\<open>for r in v[:n]\<close> visits; slicing a dict raises
      (TypeError before CPython 3.12, KeyError from 3.12 on: an Exception either way)\<close>
  "py_slice_iter (PList xs) n = Inr (slice_to xs n)"
| "py_slice_iter (PStr s) n = Inr (map (\<lambda>c. PStr [c]) (slice_to s n))"
| "py_slice_iter (PDict d) n = Inl (Raised TypeError (''unhashable type: '' @ quoted ''slice''))"
| "py_slice_iter v n =
     Inl (Raised TypeError (quoted (type_name v) @ '' object is not subscriptable''))"

fun py_setitem :: "pyval \<Rightarrow> string \<Rightarrow> pyval \<Rightarrow> exn + pydict" where
  \<comment> \<open>\<^verbatim>\<open>v[k] = x\<close> with a string key\<close>
  "py_setitem (PDict d) k x = Inr (dict_set d k x)"
| "py_setitem (PList xs) k x =
     Inl (Raised TypeError ''list indices must be integers or slices, not str'')"
| "py_setitem v k x =
     Inl (Raised TypeError (quoted (type_name v) @ '' object does not support item assignment''))"

section \<open>The outside world\<close>

text \<open>
  Everything the module reaches over the network is a parameter: the \<^verbatim>\<open>requests\<close>
  transport, the Tavily client, the DuckDuckGo client and \<^verbatim>\<open>markdownify\<close>. Each
  either raises or returns. A response carries what the code reads from it; the result of
  \<^verbatim>\<open>response.json()\<close> is part of the response, since parsing may raise. The
  interpreter's \<^verbatim>\<open>str.upper\<close>, a case mapping over all of Unicode, is a parameter
  as well: nothing is assumed about it.
\<close>

datatype tavily_client = TavilyClient string

record request_kwargs =
  kw_method :: string
  kw_url :: string
  kw_headers :: "pydict option"
  kw_params :: "pydict option"
  kw_json :: "pydict option"
  kw_timeout :: int

record response =
  status_code :: int
  reason :: string
  resp_headers :: "(string \<times> string) list"
  resp_text :: string
  resp_json :: "exn + pyval"
  resp_url :: string

record world =
  requests_request :: "request_kwargs \<Rightarrow> exn + response"
  tavily_search :: "tavily_client \<Rightarrow> string \<Rightarrow> int \<Rightarrow> bool \<Rightarrow> string \<Rightarrow> exn + pyval"
  ddgs_text :: "string \<Rightarrow> int \<Rightarrow> exn + pyval list"
  markdownify :: "string \<Rightarrow> exn + string"
  str_upper :: "string \<Rightarrow> string"

definition raise_for_status :: "response \<Rightarrow> exn option" where
  \<comment> \<open>\<^verbatim>\<open>Response.raise_for_status\<close>, a method of the third-party requests library
      that the adapters and \<^verbatim>\<open>fetch_url\<close> call: HTTPError with the library's message
      for a status in 400..499 (Client Error) or 500..599 (Server Error), nothing
      otherwise\<close>
  "raise_for_status r =
     (if 400 \<le> status_code r \<and> status_code r < 500 then
        Some (Raised HTTPError (str_int (status_code r) @ '' Client Error: '' @ reason r
                                 @ '' for url: '' @ resp_url r))
      else if 500 \<le> status_code r \<and> status_code r < 600 then
        Some (Raised HTTPError (str_int (status_code r) @ '' Server Error: '' @ reason r
                                 @ '' for url: '' @ resp_url r))
      else None)"

section \<open>The provider registry\<close>

text \<open>
  The module-level globals \<^verbatim>\<open>_tavily_client\<close>, \<^verbatim>\<open>_serper_api_key\<close> and
  \<^verbatim>\<open>_ddg_available\<close>, set once at import. The Tavily client is an object holding its
  API key; the Serper key is whatever \<^verbatim>\<open>os.environ.get\<close> returned.
\<close>

record registry =
  tavily_client :: "tavily_client option"
  serper_api_key :: "string option"
  ddg_available :: bool

definition is_search_available :: "registry \<Rightarrow> bool" where
  "is_search_available g =
     (tavily_client g \<noteq> None \<or> serper_api_key g \<noteq> None \<or> ddg_available g)"

definition get_search_provider :: "registry \<Rightarrow> string option" where
  "get_search_provider g =
     (if tavily_client g \<noteq> None then Some ''Tavily''
      else if serper_api_key g \<noteq> None then Some ''Serper''
      else if ddg_available g then Some ''DuckDuckGo''
      else None)"

definition client_truthy :: "tavily_client option \<Rightarrow> bool" where
  \<comment> \<open>\<^verbatim>\<open>if _tavily_client:\<close> an object without \<^verbatim>\<open>__bool__\<close> is true, None is false\<close>
  "client_truthy c = (c \<noteq> None)"

definition str_truthy :: "string option \<Rightarrow> bool" where
  \<comment> \<open>\<^verbatim>\<open>if _serper_api_key:\<close> None and the empty string are false\<close>
  "str_truthy s = (s \<noteq> None \<and> s \<noteq> Some [])"

definition dict_truthy :: "pydict option \<Rightarrow> bool" where
  \<comment> \<open>\<^verbatim>\<open>if headers:\<close> None and the empty dict are false\<close>
  "dict_truthy d = (d \<noteq> None \<and> d \<noteq> Some [])"

section \<open>http\_request\<close>

record http_outcome =
  success :: bool
  out_status_code :: int
  out_headers :: "(string \<times> string) list"
  content :: pyval
  out_url :: string

definition build_kwargs ::
  "world \<Rightarrow> string \<Rightarrow> string \<Rightarrow> pydict option \<Rightarrow> pydict option \<Rightarrow> pydict option \<Rightarrow> int
   \<Rightarrow> request_kwargs"
where
  \<comment> \<open>lines 69 to 76: a falsy argument leaves its key out of \<^verbatim>\<open>kwargs\<close>\<close>
  "build_kwargs w url method headers data params timeout =
     (let kwargs = \<lparr>kw_method = str_upper w method, kw_url = url, kw_headers = None,
                     kw_params = None, kw_json = None, kw_timeout = timeout\<rparr>;
          kwargs = (if dict_truthy headers then kwargs\<lparr>kw_headers := headers\<rparr> else kwargs);
          kwargs = (if dict_truthy params then kwargs\<lparr>kw_params := params\<rparr> else kwargs);
          kwargs = (if dict_truthy data then kwargs\<lparr>kw_json := data\<rparr> else kwargs)
      in kwargs)"

definition response_content :: "response \<Rightarrow> pyval" where
  \<comment> \<open>lines 80 to 83: the parsed body, or the text when parsing raises\<close>
  "response_content r = (case resp_json r of Inr v \<Rightarrow> v | Inl e \<Rightarrow> PStr (resp_text r))"

definition http_request_body ::
  "world \<Rightarrow> string \<Rightarrow> string \<Rightarrow> pydict option \<Rightarrow> pydict option \<Rightarrow> pydict option \<Rightarrow> int
   \<Rightarrow> exn + http_outcome"
where
  \<comment> \<open>the \<^verbatim>\<open>try\<close> block, lines 69 to 91\<close>
  "http_request_body w url method headers data params timeout =
     (case requests_request w (build_kwargs w url method headers data params timeout) of
        Inl e \<Rightarrow> Inl e
      | Inr r \<Rightarrow>
          Inr \<lparr>success = status_code r < 400,
               out_status_code = status_code r,
               out_headers = resp_headers r,
               content = response_content r,
               out_url = resp_url r\<rparr>)"

definition http_request_handler :: "string \<Rightarrow> int \<Rightarrow> exn \<Rightarrow> exn + http_outcome" where
  \<comment> \<open>the three \<^verbatim>\<open>except\<close> clauses in their order, lines 93 to 116; an exception that
      none of them matches propagates\<close>
  "http_request_handler url timeout e =
     (if isinstance e Timeout then
        Inr \<lparr>success = False, out_status_code = 0, out_headers = [],
             content = PStr (''Request timed out after '' @ str_int timeout @ '' seconds''),
             out_url = url\<rparr>
      else if isinstance e RequestException then
        Inr \<lparr>success = False, out_status_code = 0, out_headers = [],
             content = PStr (''Request error: '' @ exn_str e),
             out_url = url\<rparr>
      else if isinstance e Exception then
        Inr \<lparr>success = False, out_status_code = 0, out_headers = [],
             content = PStr (''Error making request: '' @ exn_str e),
             out_url = url\<rparr>
      else Inl e)"

definition http_request ::
  "world \<Rightarrow> string \<Rightarrow> string \<Rightarrow> pydict option \<Rightarrow> pydict option \<Rightarrow> pydict option \<Rightarrow> int
   \<Rightarrow> exn + http_outcome"
where
  "http_request w url method headers data params timeout =
     (case http_request_body w url method headers data params timeout of
        Inr out \<Rightarrow> Inr out
      | Inl e \<Rightarrow> http_request_handler url timeout e)"


section \<open>The search adapters\<close>

text \<open>
  An adapter returns its response together with the calls it made to its backend, so that
  what was tried, and in which order, can be read off the result. Each adapter wraps its
  whole body in \<^verbatim>\<open>try ... except Exception\<close>; every modelled exception is an
  \<^verbatim>\<open>Exception\<close>, so whatever the body raises becomes the error response.
\<close>

datatype provider = Tavily | Serper | DuckDuckGo

datatype event = Invoke provider | Network provider

definition search_error :: "string \<Rightarrow> exn \<Rightarrow> string \<Rightarrow> pydict" where
  \<comment> \<open>\<^verbatim>\<open>{"error": f"<label>{e!s}", "query": query}\<close>\<close>
  "search_error label e query = [(''error'', PStr (label @ exn_str e)), (''query'', PStr query)]"

fun map_exn :: "('a \<Rightarrow> exn + 'b) \<Rightarrow> 'a list \<Rightarrow> exn + 'b list" where
  \<comment> \<open>a loop or comprehension over a list that stops at the first element that raises\<close>
  "map_exn f [] = Inr []"
| "map_exn f (x # xs) =
     (case f x of
        Inl e \<Rightarrow> Inl e
      | Inr y \<Rightarrow> (case map_exn f xs of Inl e \<Rightarrow> Inl e | Inr ys \<Rightarrow> Inr (y # ys)))"

definition result_item :: "string \<Rightarrow> string \<Rightarrow> string \<Rightarrow> pyval \<Rightarrow> exn + pyval" where
  \<comment> \<open>the item literal of lines 126 to 131 and 158 to 163; the three key names are the
      backend's\<close>
  "result_item ktitle kurl kcontent r =
     (case py_get r ktitle (PStr []) of
        Inl e \<Rightarrow> Inl e
      | Inr t \<Rightarrow>
     (case py_get r kurl (PStr []) of
        Inl e \<Rightarrow> Inl e
      | Inr u \<Rightarrow>
     (case py_get r kcontent (PStr []) of
        Inl e \<Rightarrow> Inl e
      | Inr c \<Rightarrow>
          Inr (PDict [(''title'', t), (''url'', u), (''content'', c), (''score'', PFloat 1)]))))"

definition search_duckduckgo :: "registry \<Rightarrow> world \<Rightarrow> string \<Rightarrow> int \<Rightarrow> pydict \<times> event list" where
  "search_duckduckgo g w query max_results =
     (if \<not> ddg_available g then
        (search_error ''DuckDuckGo search error: ''
           (Raised NameError (''name '' @ quoted ''DDGS'' @ '' is not defined'')) query, [])
      else
        (case ddgs_text w query max_results of
           Inl e \<Rightarrow> search_error ''DuckDuckGo search error: '' e query
         | Inr results \<Rightarrow>
             (case map_exn (result_item ''title'' ''href'' ''body'') results of
                Inl e \<Rightarrow> search_error ''DuckDuckGo search error: '' e query
              | Inr items \<Rightarrow>
                  [(''results'', PList items), (''query'', PStr query),
                   (''provider'', PStr ''duckduckgo'')]),
         [Network DuckDuckGo]))"

definition serper_kwargs :: "registry \<Rightarrow> string \<Rightarrow> int \<Rightarrow> request_kwargs" where
  \<comment> \<open>the arguments of \<^verbatim>\<open>requests.post\<close>, lines 144 to 152\<close>
  "serper_kwargs g query max_results =
     \<lparr>kw_method = ''post'',
      kw_url = ''https://google.serper.dev/search'',
      kw_headers = Some [(''X-API-KEY'', (case serper_api_key g of None \<Rightarrow> PNone | Some k \<Rightarrow> PStr k)),
                         (''Content-Type'', PStr ''application/json'')],
      kw_params = None,
      kw_json = Some [(''q'', PStr query), (''num'', PInt max_results)],
      kw_timeout = 30\<rparr>"

definition search_serper_body :: "registry \<Rightarrow> world \<Rightarrow> string \<Rightarrow> int \<Rightarrow> exn + pydict" where
  \<comment> \<open>the \<^verbatim>\<open>try\<close> block, lines 144 to 169\<close>
  "search_serper_body g w query max_results =
     (case requests_request w (serper_kwargs g query max_results) of
        Inl e \<Rightarrow> Inl e
      | Inr response \<Rightarrow>
     (case raise_for_status response of
        Some e \<Rightarrow> Inl e
      | None \<Rightarrow>
     (case resp_json response of
        Inl e \<Rightarrow> Inl e
      | Inr data \<Rightarrow>
     (case py_get data ''organic'' (PList []) of
        Inl e \<Rightarrow> Inl e
      | Inr organic \<Rightarrow>
     (case py_slice_iter organic max_results of
        Inl e \<Rightarrow> Inl e
      | Inr rs \<Rightarrow>
     (case map_exn (result_item ''title'' ''link'' ''snippet'') rs of
        Inl e \<Rightarrow> Inl e
      | Inr results \<Rightarrow>
          Inr [(''results'', PList results), (''query'', PStr query),
               (''provider'', PStr ''serper'')]))))))"

definition search_serper :: "registry \<Rightarrow> world \<Rightarrow> string \<Rightarrow> int \<Rightarrow> pydict \<times> event list" where
  "search_serper g w query max_results =
     (case search_serper_body g w query max_results of
        Inl e \<Rightarrow> search_error ''Serper search error: '' e query
      | Inr result \<Rightarrow> result,
      [Network Serper])"

definition search_tavily ::
  "registry \<Rightarrow> world \<Rightarrow> string \<Rightarrow> int \<Rightarrow> string \<Rightarrow> bool \<Rightarrow> pydict \<times> event list"
where
  "search_tavily g w query max_results topic include_raw_content =
     (case tavily_client g of
        None \<Rightarrow>
          (search_error ''Tavily search error: ''
             (Raised AttributeError
                (quoted ''NoneType'' @ '' object has no attribute '' @ quoted ''search'')) query, [])
      | Some client \<Rightarrow>
          (case tavily_search w client query max_results include_raw_content topic of
             Inl e \<Rightarrow> search_error ''Tavily search error: '' e query
           | Inr result \<Rightarrow>
               (case py_setitem result ''provider'' (PStr ''tavily'') of
                  Inl e \<Rightarrow> search_error ''Tavily search error: '' e query
                | Inr result' \<Rightarrow> result'),
           [Network Tavily]))"

section \<open>web\_search\<close>

definition no_provider_error :: "string \<Rightarrow> pydict" where
  \<comment> \<open>lines 249 to 252\<close>
  "no_provider_error query =
     [(''error'', PStr (''No search provider available. Set TAVILY_API_KEY or SERPER_API_KEY, ''
                        @ ''or install duckduckgo-search (pip install duckduckgo-search).'')),
      (''query'', PStr query)]"

text \<open>
  The body of \<^verbatim>\<open>web_search\<close> is three guarded attempts that fall through to the final
  \<^verbatim>\<open>return\<close>. Each attempt is a function of the trace so far; the first one is
  \<^verbatim>\<open>web_search\<close> itself.
\<close>

definition web_search_ddg ::
  "registry \<Rightarrow> world \<Rightarrow> string \<Rightarrow> int \<Rightarrow> event list \<Rightarrow> pydict \<times> event list"
where
  \<comment> \<open>lines 243 to 252\<close>
  "web_search_ddg g w query max_results tr =
     (if ddg_available g then
        (case search_duckduckgo g w query max_results of
           (result, ev) \<Rightarrow>
             if \<not> has_key result ''error'' then (result, tr @ Invoke DuckDuckGo # ev)
             else (no_provider_error query, tr @ Invoke DuckDuckGo # ev))
      else (no_provider_error query, tr))"

definition web_search_serper ::
  "registry \<Rightarrow> world \<Rightarrow> string \<Rightarrow> int \<Rightarrow> event list \<Rightarrow> pydict \<times> event list"
where
  \<comment> \<open>lines 237 to 252\<close>
  "web_search_serper g w query max_results tr =
     (if str_truthy (serper_api_key g) then
        (case search_serper g w query max_results of
           (result, ev) \<Rightarrow>
             if \<not> has_key result ''error'' then (result, tr @ Invoke Serper # ev)
             else web_search_ddg g w query max_results (tr @ Invoke Serper # ev))
      else web_search_ddg g w query max_results tr)"

definition web_search ::
  "registry \<Rightarrow> world \<Rightarrow> string \<Rightarrow> int \<Rightarrow> string \<Rightarrow> bool \<Rightarrow> pydict \<times> event list"
where
  "web_search g w query max_results topic include_raw_content =
     (if client_truthy (tavily_client g) then
        (case search_tavily g w query max_results topic include_raw_content of
           (result, ev) \<Rightarrow>
             if \<not> has_key result ''error'' then (result, Invoke Tavily # ev)
             else web_search_serper g w query max_results (Invoke Tavily # ev))
      else web_search_serper g w query max_results [])"

section \<open>fetch\_url\<close>

definition fetch_kwargs :: "string \<Rightarrow> int \<Rightarrow> request_kwargs" where
  \<comment> \<open>the arguments of \<^verbatim>\<open>requests.get\<close>, lines 281 to 285\<close>
  "fetch_kwargs url timeout =
     \<lparr>kw_method = ''get'', kw_url = url,
      kw_headers = Some [(''User-Agent'', PStr ''Mozilla/5.0 (compatible; DeepAgents/1.0)'')],
      kw_params = None, kw_json = None, kw_timeout = timeout\<rparr>"

definition fetch_url_body :: "world \<Rightarrow> string \<Rightarrow> int \<Rightarrow> exn + pydict" where
  \<comment> \<open>the \<^verbatim>\<open>try\<close> block, lines 281 to 296\<close>
  "fetch_url_body w url timeout =
     (case requests_request w (fetch_kwargs url timeout) of
        Inl e \<Rightarrow> Inl e
      | Inr response \<Rightarrow>
     (case raise_for_status response of
        Some e \<Rightarrow> Inl e
      | None \<Rightarrow>
     (case markdownify w (resp_text response) of
        Inl e \<Rightarrow> Inl e
      | Inr markdown_content \<Rightarrow>
          Inr [(''url'', PStr (resp_url response)),
               (''markdown_content'', PStr markdown_content),
               (''status_code'', PInt (status_code response)),
               (''content_length'', PInt (int (length markdown_content)))])))"

definition fetch_url :: "world \<Rightarrow> string \<Rightarrow> int \<Rightarrow> exn + pydict" where
  \<comment> \<open>an exception that the clause \<^verbatim>\<open>except Exception\<close> does not match propagates\<close>
  "fetch_url w url timeout =
     (case fetch_url_body w url timeout of
        Inr result \<Rightarrow> Inr result
      | Inl e \<Rightarrow>
          if isinstance e Exception
          then Inr [(''error'', PStr (''Fetch URL error: '' @ exn_str e)), (''url'', PStr url)]
          else Inl e)"


section \<open>The fallback chain as the specification words it\<close>

text \<open>
  The specification describes the dispatcher as a walk along the priority-ordered list of
  the available providers: invoke the adapter, return on the first response without an
  \<^verbatim>\<open>error\<close> key, report exhaustion at the end of the list. A provider is available
  by the registry's own test, the one of \<^verbatim>\<open>is_search_available\<close> and
  \<^verbatim>\<open>get_search_provider\<close> (lines 33 and 38 to 43): the Tavily client is not None, the
  Serper key is not None, the DuckDuckGo module was imported.
\<close>

definition priority_order :: "provider list" where
  "priority_order = [Tavily, Serper, DuckDuckGo]"

fun available :: "registry \<Rightarrow> provider \<Rightarrow> bool" where
  "available g Tavily = (tavily_client g \<noteq> None)"
| "available g Serper = (serper_api_key g \<noteq> None)"
| "available g DuckDuckGo = ddg_available g"

fun run_adapter ::
  "registry \<Rightarrow> world \<Rightarrow> string \<Rightarrow> int \<Rightarrow> string \<Rightarrow> bool \<Rightarrow> provider \<Rightarrow> pydict \<times> event list"
where
  "run_adapter g w query n topic raw Tavily = search_tavily g w query n topic raw"
| "run_adapter g w query n topic raw Serper = search_serper g w query n"
| "run_adapter g w query n topic raw DuckDuckGo = search_duckduckgo g w query n"

fun first_success ::
  "registry \<Rightarrow> world \<Rightarrow> string \<Rightarrow> int \<Rightarrow> string \<Rightarrow> bool \<Rightarrow> provider list \<Rightarrow> pydict \<times> event list"
where
  "first_success g w query n topic raw [] = (no_provider_error query, [])"
| "first_success g w query n topic raw (p # ps) =
     (case run_adapter g w query n topic raw p of
        (result, ev) \<Rightarrow>
          if \<not> has_key result ''error'' then (result, Invoke p # ev)
          else (case first_success g w query n topic raw ps of
                  (result', tr) \<Rightarrow> (result', Invoke p # ev @ tr)))"

fun invoked :: "event list \<Rightarrow> provider list" where
  \<comment> \<open>the adapters a trace invoked, in order\<close>
  "invoked [] = []"
| "invoked (Invoke p # es) = p # invoked es"
| "invoked (Network p # es) = invoked es"

section \<open>Sample registries and worlds\<close>

definition no_providers :: registry where
  "no_providers = \<lparr>tavily_client = None, serper_api_key = None, ddg_available = False\<rparr>"

definition all_providers :: registry where
  "all_providers = \<lparr>tavily_client = Some (TavilyClient ''tvly-key''),
                    serper_api_key = Some ''serper-key'', ddg_available = True\<rparr>"

definition ddg_only :: registry where
  "ddg_only = \<lparr>tavily_client = None, serper_api_key = None, ddg_available = True\<rparr>"

definition empty_key_registry :: registry where
  \<comment> \<open>\<^verbatim>\<open>SERPER_API_KEY\<close> is set to the empty string\<close>
  "empty_key_registry = \<lparr>tavily_client = None, serper_api_key = Some [], ddg_available = True\<rparr>"

definition ascii_upper_char :: "char \<Rightarrow> char" where
  "ascii_upper_char c =
     (if CHR ''a'' \<le> c \<and> c \<le> CHR ''z'' then char_of (of_char c - (32::nat)) else c)"

definition ascii_upper :: "string \<Rightarrow> string" where
  \<comment> \<open>what \<^verbatim>\<open>str.upper\<close> does to ASCII text; the sample worlds use it\<close>
  "ascii_upper s = map ascii_upper_char s"

definition offline_world :: world where
  "offline_world =
     \<lparr>requests_request = (\<lambda>kw. Inl (Raised ConnectionError ''connection refused'')),
      tavily_search = (\<lambda>c q n raw topic. Inl (Raised Exception ''quota exceeded'')),
      ddgs_text = (\<lambda>q n. Inl (Raised Exception ''rate limited'')),
      markdownify = (\<lambda>html. Inr html),
      str_upper = ascii_upper\<rparr>"

definition json_response :: "int \<Rightarrow> string \<Rightarrow> string \<Rightarrow> pyval \<Rightarrow> response" where
  "json_response code why url body =
     \<lparr>status_code = code, reason = why, resp_headers = [(''Content-Type'', ''application/json'')],
      resp_text = ''{}'', resp_json = Inr body, resp_url = url\<rparr>"

definition html_response :: "int \<Rightarrow> string \<Rightarrow> string \<Rightarrow> string \<Rightarrow> response" where
  "html_response code why url body =
     \<lparr>status_code = code, reason = why, resp_headers = [(''Content-Type'', ''text/html'')],
      resp_text = body, resp_json = Inl (Raised JSONDecodeError ''Expecting value''),
      resp_url = url\<rparr>"

definition three_organic :: pyval where
  "three_organic =
     PDict [(''organic'',
             PList [PDict [(''title'', PStr ''Ownership''), (''link'', PStr ''https://a.test''),
                           (''snippet'', PStr ''rules'')],
                    PDict [(''title'', PStr ''Borrowing'')],
                    PDict []])]"

definition serper_world :: world where
  \<comment> \<open>Tavily and DuckDuckGo fail, the Serper endpoint answers with three organic results\<close>
  "serper_world =
     offline_world\<lparr>requests_request :=
       (\<lambda>kw. Inr (json_response 200 ''OK'' (kw_url kw) three_organic))\<rparr>"

definition ddg_world :: world where
  \<comment> \<open>DuckDuckGo yields two results whatever the limit\<close>
  "ddg_world =
     offline_world\<lparr>ddgs_text :=
       (\<lambda>q n. Inr [PDict [(''title'', PStr ''Ownership''), (''href'', PStr ''https://a.test''),
                            (''body'', PStr ''rules'')],
                     PDict [(''title'', PStr ''Borrowing'')]])\<rparr>"

definition timeout_world :: world where
  "timeout_world =
     offline_world\<lparr>requests_request := (\<lambda>kw. Inl (Raised Timeout ''read timed out''))\<rparr>"

definition reason_phrase :: "int \<Rightarrow> string" where
  "reason_phrase code =
     (if code = 200 then ''OK'' else if code = 404 then ''Not Found'' else ''Unknown'')"

definition status_world :: "int \<Rightarrow> world" where
  \<comment> \<open>every request is answered with the given status and a one-paragraph page\<close>
  "status_world code =
     offline_world\<lparr>requests_request :=
       (\<lambda>kw. Inr (html_response code (reason_phrase code) (kw_url kw) ''<p>Hello</p>''))\<rparr>"

subsection \<open>The unified result item\<close>

fun unified_item :: "pyval \<Rightarrow> bool" where
  \<comment> \<open>a dictionary with exactly the fields title, url, content and score, the score 1.0\<close>
  "unified_item (PDict [(k1, t), (k2, u), (k3, c), (k4, s)]) =
     (k1 = ''title'' \<and> k2 = ''url'' \<and> k3 = ''content'' \<and> k4 = ''score'' \<and> s = PFloat 1)"
| "unified_item v = False"

fun normalised :: "string \<Rightarrow> string \<Rightarrow> string \<Rightarrow> pyval \<Rightarrow> pyval \<Rightarrow> bool" where
  \<comment> \<open>the item is the backend's record with its three keys renamed, a missing key read as
      the empty string, and the score 1.0\<close>
  "normalised kt ku kc (PDict d) it =
     (it = PDict [(''title'', dict_get d kt (PStr [])), (''url'', dict_get d ku (PStr [])),
                  (''content'', dict_get d kc (PStr [])), (''score'', PFloat 1)])"
| "normalised kt ku kc v it = False"

fun item_score :: "pyval \<Rightarrow> real option" where
  "item_score (PDict d) = (case map_of d ''score'' of Some (PFloat s) \<Rightarrow> Some s | _ \<Rightarrow> None)"
| "item_score v = None"

fun item_fields :: "pyval \<Rightarrow> bool" where
  \<comment> \<open>all four fields are present\<close>
  "item_fields (PDict d) =
     (has_key d ''title'' \<and> has_key d ''url'' \<and> has_key d ''content'' \<and> has_key d ''score'')"
| "item_fields v = False"

definition sparse_tavily_world :: world where
  \<comment> \<open>the Tavily backend answers with one item that has neither content nor score and one
      whose score is 2\<close>
  "sparse_tavily_world =
     offline_world\<lparr>tavily_search :=
       (\<lambda>c q n raw topic.
          Inr (PDict [(''query'', PStr q),
                      (''results'',
                       PList [PDict [(''title'', PStr ''Ownership''), (''url'', PStr ''https://a.test'')],
                              PDict [(''title'', PStr ''Borrowing''), (''url'', PStr ''https://b.test''),
                                     (''content'', PStr ''rules''), (''score'', PFloat 2)]])]))\<rparr>"

definition bare_tavily_world :: world where
  \<comment> \<open>the Tavily backend answers with a dictionary that has results but no query\<close>
  "bare_tavily_world =
     offline_world\<lparr>tavily_search := (\<lambda>c q n raw topic. Inr (PDict [(''results'', PList [])]))\<rparr>"

definition error_tavily_world :: world where
  \<comment> \<open>the Tavily backend returns, without raising, a dictionary that reports an error\<close>
  "error_tavily_world =
     offline_world\<lparr>tavily_search :=
       (\<lambda>c q n raw topic.
          Inr (PDict [(''error'', PStr ''over quota''), (''results'', PList []),
                      (''query'', PStr q)]))\<rparr>"

definition page_world :: "int \<Rightarrow> world" where
  \<comment> \<open>every request is answered with the given status and a one-paragraph page, which
      \<^verbatim>\<open>markdownify\<close> renders as its text\<close>
  "page_world code = (status_world code)\<lparr>markdownify := (\<lambda>html. Inr ''Hello'')\<rparr>"

subsection \<open>The two shapes of a search response\<close>

definition success_keys :: "pydict \<Rightarrow> bool" where
  "success_keys d = (has_key d ''results'' \<and> has_key d ''query'' \<and> has_key d ''provider'')"

definition failure_keys :: "pydict \<Rightarrow> bool" where
  "failure_keys d = (has_key d ''error'' \<and> has_key d ''query'')"

section \<open>Theorems\<close>

subsection \<open>Helper lemmas\<close>

lemma isinstance_Exception [simp]: "isinstance e Exception"
  by (cases e) simp

lemma invoked_append: "invoked (xs @ ys) = invoked xs @ invoked ys"
  by (induction xs rule: invoked.induct) auto

lemma adapter_events:
  "snd (run_adapter g w q n t r p) = [Network p] \<or> snd (run_adapter g w q n t r p) = []"
  by (cases p)
     (auto simp: search_tavily_def search_serper_def search_duckduckgo_def split: option.splits)

lemma invoked_adapter: "invoked (snd (run_adapter g w q n t r p)) = []"
  using adapter_events [of g w q n t r p] by auto

lemma available_iff: "is_search_available g \<longleftrightarrow> (\<exists>p. available g p)"
proof
  assume "is_search_available g"
  then have "available g Tavily \<or> available g Serper \<or> available g DuckDuckGo"
    by (simp add: is_search_available_def)
  then show "\<exists>p. available g p" by blast
next
  assume "\<exists>p. available g p"
  then obtain p where "available g p" by blast
  then show "is_search_available g"
    by (cases p) (simp_all add: is_search_available_def)
qed

lemma web_search_chain:
  assumes "serper_api_key g \<noteq> Some []"
  shows "web_search g w q n t r
         = first_success g w q n t r (filter (available g) priority_order)"
  using assms
  by (cases "tavily_client g"; cases "serper_api_key g")
     (auto simp: web_search_def web_search_serper_def web_search_ddg_def priority_order_def
           client_truthy_def str_truthy_def split: prod.splits)

lemma first_success_prefix: "prefix (invoked (snd (first_success g w q n t r ps))) ps"
  by (induction ps)
     (auto simp: invoked_append invoked_adapter [simplified] split: prod.splits
           dest: arg_cong [where f = "\<lambda>x. invoked (snd x)"])

lemma first_success_wins:
  assumes "p \<in> set (invoked (snd (first_success g w q n t r ps)))"
    and "\<not> has_key (fst (run_adapter g w q n t r p)) ''error''"
  shows "fst (first_success g w q n t r ps) = fst (run_adapter g w q n t r p)
         \<and> last (invoked (snd (first_success g w q n t r ps))) = p"
  using assms
proof (induction ps)
  case Nil
  then show ?case by simp
next
  case (Cons p' ps)
  obtain res ev where ra: "run_adapter g w q n t r p' = (res, ev)"
    by (cases "run_adapter g w q n t r p'") auto
  have ev: "invoked ev = []"
    using invoked_adapter [of g w q n t r p'] ra by simp
  show ?case
  proof (cases "has_key res ''error''")
    case False
    with Cons.prems ra ev show ?thesis by auto
  next
    case True
    obtain res' tr where fs: "first_success g w q n t r ps = (res', tr)"
      by (cases "first_success g w q n t r ps") auto
    from Cons.prems(1) ra True fs ev
    have "p = p' \<or> p \<in> set (invoked tr)"
      by (auto simp: invoked_append)
    moreover have "p \<noteq> p'"
      using Cons.prems(2) ra True by auto
    ultimately have mem: "p \<in> set (invoked (snd (first_success g w q n t r ps)))"
      using fs by simp
    from Cons.IH [OF mem Cons.prems(2)] fs
    have ih: "res' = fst (run_adapter g w q n t r p)" "last (invoked tr) = p"
      by auto
    have ne: "invoked tr \<noteq> []"
      using mem fs by auto
    show ?thesis
      using ra True fs ev ih ne by (simp add: invoked_append)
  qed
qed

subsection \<open>C1: priority order and first success\<close>

text \<open>
  Where the Serper key is not the empty string, \<^verbatim>\<open>web_search\<close> is the walk along the
  available providers in the order Tavily, Serper, DuckDuckGo: the adapters it invokes are
  a prefix of that list, and an invoked adapter whose response has no \<^verbatim>\<open>error\<close> key is
  the last one invoked and its response is the one returned.
\<close>

lemma web_search_walk_nonempty_key:
  assumes "serper_api_key g \<noteq> Some []"
  shows "web_search g w q n t r = first_success g w q n t r (filter (available g) priority_order)
   \<and> prefix (invoked (snd (web_search g w q n t r))) (filter (available g) priority_order)
   \<and> (\<forall>p \<in> set (invoked (snd (web_search g w q n t r))).
        \<not> has_key (fst (run_adapter g w q n t r p)) ''error'' \<longrightarrow>
          fst (web_search g w q n t r) = fst (run_adapter g w q n t r p)
          \<and> last (invoked (snd (web_search g w q n t r))) = p)"
  using first_success_prefix [of g w q n t r "filter (available g) priority_order"]
        first_success_wins [of _ g w q n t r "filter (available g) priority_order"]
  by (simp add: web_search_chain [OF assms])

text \<open>
  C1. The claim says that \<^verbatim>\<open>web_search\<close> tries the available providers in the order
  Tavily, Serper, DuckDuckGo and returns the first response without an \<^verbatim>\<open>error\<close> key.
  With the Serper key set to the empty string the code does not: Serper is available by
  the registry's test and comes first among the available providers, yet for every world
  and query \<^verbatim>\<open>web_search\<close> invokes DuckDuckGo only. In a world where the Serper
  endpoint answers and DuckDuckGo fails, the walk the claim describes returns Serper's
  results, and \<^verbatim>\<open>web_search\<close> returns the no-provider error.
\<close>

theorem web_search_skips_available_serper:
  "is_search_available empty_key_registry = True
   \<and> filter (available empty_key_registry) priority_order = [Serper, DuckDuckGo]
   \<and> invoked (snd (web_search empty_key_registry w q n t r)) = [DuckDuckGo]
   \<and> hd (invoked (snd (first_success empty_key_registry w q n t r
                          (filter (available empty_key_registry) priority_order)))) = Serper
   \<and> has_key (fst (search_serper empty_key_registry serper_world ''rust'' 3)) ''error'' = False
   \<and> fst (first_success empty_key_registry serper_world ''rust'' 3 ''general'' False
             (filter (available empty_key_registry) priority_order))
       = fst (search_serper empty_key_registry serper_world ''rust'' 3)
   \<and> fst (web_search empty_key_registry serper_world ''rust'' 3 ''general'' False)
       = no_provider_error ''rust''"
proof (intro conjI)
  show "is_search_available empty_key_registry = True"
    by (simp add: is_search_available_def empty_key_registry_def)
  show av: "filter (available empty_key_registry) priority_order = [Serper, DuckDuckGo]"
    by (simp add: priority_order_def empty_key_registry_def)
  show "invoked (snd (web_search empty_key_registry w q n t r)) = [DuckDuckGo]"
    by (simp add: empty_key_registry_def web_search_def web_search_serper_def
          web_search_ddg_def search_duckduckgo_def client_truthy_def str_truthy_def
          split: prod.splits)
  show "hd (invoked (snd (first_success empty_key_registry w q n t r
                            (filter (available empty_key_registry) priority_order)))) = Serper"
    by (simp add: av search_serper_def split: prod.splits)
  have ev: "fst (search_serper empty_key_registry serper_world ''rust'' 3)
            = [(''results'',
                PList [PDict [(''title'', PStr ''Ownership''), (''url'', PStr ''https://a.test''),
                              (''content'', PStr ''rules''), (''score'', PFloat 1)],
                       PDict [(''title'', PStr ''Borrowing''), (''url'', PStr []),
                              (''content'', PStr []), (''score'', PFloat 1)],
                       PDict [(''title'', PStr []), (''url'', PStr []),
                              (''content'', PStr []), (''score'', PFloat 1)]]),
               (''query'', PStr ''rust''), (''provider'', PStr ''serper'')]"
    by (simp add: search_serper_def search_serper_body_def serper_kwargs_def
          empty_key_registry_def serper_world_def offline_world_def json_response_def
          three_organic_def raise_for_status_def result_item_def dict_get_def slice_to_def)
  show ok: "has_key (fst (search_serper empty_key_registry serper_world ''rust'' 3)) ''error''
            = False"
    by (simp add: ev has_key_def)
  show "fst (first_success empty_key_registry serper_world ''rust'' 3 ''general'' False
               (filter (available empty_key_registry) priority_order))
        = fst (search_serper empty_key_registry serper_world ''rust'' 3)"
    using ok
    by (cases "search_serper empty_key_registry serper_world ''rust'' 3") (simp add: av)
  show "fst (web_search empty_key_registry serper_world ''rust'' 3 ''general'' False)
        = no_provider_error ''rust''"
    by (simp add: empty_key_registry_def web_search_def web_search_serper_def
          web_search_ddg_def search_duckduckgo_def serper_world_def offline_world_def
          search_error_def has_key_def client_truthy_def str_truthy_def)
qed

theorem web_search_skips_available_serper_witness:
  "filter (available empty_key_registry) priority_order = [Serper, DuckDuckGo]
   \<and> invoked (snd (web_search empty_key_registry ddg_world ''rust'' 3 ''general'' False))
       = [DuckDuckGo]
   \<and> fst (web_search empty_key_registry serper_world ''rust'' 3 ''general'' False)
       = no_provider_error ''rust''"
  using web_search_skips_available_serper [of ddg_world "''rust''" 3 "''general''" False]
  by simp

lemma web_search_walk_nonempty_key_example:
  "serper_api_key all_providers \<noteq> Some []
   \<and> invoked (snd (web_search all_providers serper_world ''rust'' 3 ''general'' False))
       = [Tavily, Serper]
   \<and> fst (web_search all_providers serper_world ''rust'' 3 ''general'' False)
       = fst (run_adapter all_providers serper_world ''rust'' 3 ''general'' False Serper)"
proof -
  let ?ws = "web_search all_providers serper_world ''rust'' 3 ''general'' False"
  have key: "serper_api_key all_providers \<noteq> Some []"
    by (simp add: all_providers_def)
  have tr: "invoked (snd ?ws) = [Tavily, Serper]"
    by (simp add: web_search_def web_search_serper_def search_tavily_def search_serper_def
          search_serper_body_def serper_kwargs_def all_providers_def serper_world_def
          offline_world_def json_response_def three_organic_def raise_for_status_def
          result_item_def dict_get_def search_error_def has_key_def client_truthy_def
          str_truthy_def slice_to_def)
  have ok: "\<not> has_key (fst (run_adapter all_providers serper_world ''rust'' 3 ''general''
                               False Serper)) ''error''"
    by (simp add: search_serper_def search_serper_body_def serper_kwargs_def all_providers_def
          serper_world_def offline_world_def json_response_def three_organic_def
          raise_for_status_def result_item_def dict_get_def has_key_def slice_to_def)
  have "\<forall>p \<in> set (invoked (snd ?ws)).
          \<not> has_key (fst (run_adapter all_providers serper_world ''rust'' 3 ''general'' False p))
                ''error'' \<longrightarrow>
          fst ?ws = fst (run_adapter all_providers serper_world ''rust'' 3 ''general'' False p)
          \<and> last (invoked (snd ?ws)) = p"
    using web_search_walk_nonempty_key [OF key, of serper_world "''rust''" 3 "''general''" False]
    by blast
  with key tr ok show ?thesis by simp
qed

subsection \<open>C2: no provider, no call\<close>

text \<open>
  C2. When no provider is available (no Tavily client, no Serper key, no DuckDuckGo
  module), \<^verbatim>\<open>web_search\<close> invokes no adapter and makes no network call, whatever the
  query, and returns the two-key dictionary whose \<^verbatim>\<open>error\<close> starts with "No search
  provider available" and whose \<^verbatim>\<open>query\<close> is the query it was given.
\<close>

theorem web_search_no_provider:
  assumes "\<not> is_search_available g"
  shows "snd (web_search g w q n t r) = []
         \<and> (\<exists>rest. fst (web_search g w q n t r)
                     = [(''error'', PStr (''No search provider available'' @ rest)),
                        (''query'', PStr q)])"
  using assms
  by (simp add: is_search_available_def web_search_def web_search_serper_def web_search_ddg_def
        client_truthy_def str_truthy_def no_provider_error_def)

theorem web_search_no_provider_witness:
  "\<not> is_search_available no_providers
   \<and> snd (web_search no_providers serper_world ''rust ownership model'' 3 ''general'' False) = []
   \<and> map fst (fst (web_search no_providers serper_world ''rust ownership model'' 3 ''general''
                     False)) = [''error'', ''query'']"
proof -
  have h: "\<not> is_search_available no_providers"
    by (simp add: is_search_available_def no_providers_def)
  show ?thesis
    using h web_search_no_provider [OF h, of serper_world "''rust ownership model''" 3
                                      "''general''" False]
    by auto
qed

subsection \<open>C3: http\_request never raises\<close>

text \<open>
  C3. For every url, method, headers, data, params and timeout, and whatever the transport
  does, \<^verbatim>\<open>http_request\<close> returns an outcome and raises nothing. When the transport
  raises (a timeout or any other fault), the outcome has \<^verbatim>\<open>success\<close> false,
  \<^verbatim>\<open>status_code\<close> 0, empty headers, the url it was given, and as content a
  diagnostic text: "Request timed out after N seconds" for a timeout, "Request error:"
  with the exception's text for another fault of the requests library, "Error making
  request:" with the exception's text for anything else.
\<close>

theorem http_request_never_raises:
  "(\<exists>out. http_request w url method headers data params timeout = Inr out)
   \<and> (\<forall>e. requests_request w (build_kwargs w url method headers data params timeout) = Inl e \<longrightarrow>
          http_request w url method headers data params timeout
          = Inr \<lparr>success = False, out_status_code = 0, out_headers = [],
                 content = PStr (if isinstance e Timeout
                                 then ''Request timed out after '' @ str_int timeout @ '' seconds''
                                 else if isinstance e RequestException
                                 then ''Request error: '' @ exn_str e
                                 else ''Error making request: '' @ exn_str e),
                 out_url = url\<rparr>)"
  by (auto simp: http_request_def http_request_body_def http_request_handler_def
           split: sum.splits)

theorem http_request_never_raises_witness:
  "requests_request timeout_world
     (build_kwargs timeout_world ''http://slow.test'' ''get'' None None None 30)
     = Inl (Raised Timeout ''read timed out'')
   \<and> http_request timeout_world ''http://slow.test'' ''get'' None None None 30
     = Inr \<lparr>success = False, out_status_code = 0, out_headers = [],
            content = PStr ''Request timed out after 30 seconds'',
            out_url = ''http://slow.test''\<rparr>"
proof -
  have raised: "requests_request timeout_world
                  (build_kwargs timeout_world ''http://slow.test'' ''get'' None None None 30)
                = Inl (Raised Timeout ''read timed out'')"
    by (simp add: timeout_world_def offline_world_def)
  have thirty: "str_int 30 = ''30''"
    by code_simp
  show ?thesis
    using raised thirty
          http_request_never_raises [of timeout_world "''http://slow.test''" "''get''" None None
                                        None 30]
    by simp
qed

subsection \<open>C8: success means a status below 400\<close>

text \<open>
  C8. Whenever the transport completes with a response, the outcome of
  \<^verbatim>\<open>http_request\<close> carries the response's status code, and its \<^verbatim>\<open>success\<close> is true
  exactly when that status code is below 400.
\<close>

theorem http_request_success_iff:
  assumes "requests_request w (build_kwargs w url method headers data params timeout) = Inr resp"
  shows "\<exists>out. http_request w url method headers data params timeout = Inr out
               \<and> out_status_code out = status_code resp
               \<and> (success out \<longleftrightarrow> out_status_code out < 400)"
  using assms by (simp add: http_request_def http_request_body_def)

theorem http_request_success_iff_witness:
  "requests_request (status_world 404)
       (build_kwargs (status_world 404) ''http://a.test/missing'' ''get'' None None None 30)
     = Inr (html_response 404 ''Not Found'' ''http://a.test/missing'' ''<p>Hello</p>'')
   \<and> (\<exists>out. http_request (status_world 404) ''http://a.test/missing'' ''get'' None None None 30
               = Inr out
             \<and> out_status_code out = 404 \<and> \<not> success out)"
proof -
  have completes:
    "requests_request (status_world 404)
       (build_kwargs (status_world 404) ''http://a.test/missing'' ''get'' None None None 30)
     = Inr (html_response 404 ''Not Found'' ''http://a.test/missing'' ''<p>Hello</p>'')"
    by (simp add: status_world_def offline_world_def build_kwargs_def dict_truthy_def
          reason_phrase_def)
  show ?thesis
    using completes http_request_success_iff [OF completes]
    by (auto simp: html_response_def)
qed

subsection \<open>C10: a falsy argument is left out of the request\<close>

text \<open>
  C10. In \<^verbatim>\<open>http_request\<close> each of headers, params and data enters the outgoing request
  only when it is truthy: the request built from an empty dict is the request built from
  None, for each of the three arguments, and so is the result of the call.
\<close>

theorem http_request_empty_dict_as_None:
  "kw_headers (build_kwargs w url method headers data params timeout)
     = (if dict_truthy headers then headers else None)
   \<and> kw_params (build_kwargs w url method headers data params timeout)
     = (if dict_truthy params then params else None)
   \<and> kw_json (build_kwargs w url method headers data params timeout)
     = (if dict_truthy data then data else None)
   \<and> build_kwargs w url method (Some []) data params timeout
     = build_kwargs w url method None data params timeout
   \<and> build_kwargs w url method headers (Some []) params timeout
     = build_kwargs w url method headers None params timeout
   \<and> build_kwargs w url method headers data (Some []) timeout
     = build_kwargs w url method headers data None timeout
   \<and> http_request w url method (Some []) data params timeout
     = http_request w url method None data params timeout
   \<and> http_request w url method headers (Some []) params timeout
     = http_request w url method headers None params timeout
   \<and> http_request w url method headers data (Some []) timeout
     = http_request w url method headers data None timeout"
  by (simp add: build_kwargs_def dict_truthy_def http_request_def http_request_body_def Let_def)

subsection \<open>Helper lemmas on the adapters\<close>

lemma map_exn_result_item:
  "map_exn (result_item kt ku kc) rs = Inr items \<Longrightarrow> list_all2 (normalised kt ku kc) rs items"
proof (induction rs arbitrary: items)
  case Nil
  then show ?case by simp
next
  case (Cons r rs)
  then show ?case
    by (cases r) (auto simp: result_item_def split: sum.splits)
qed

lemma normalised_unified:
  "normalised kt ku kc r it \<Longrightarrow> unified_item it \<and> item_fields it \<and> item_score it = Some 1"
  by (cases r) (auto simp: has_key_def)

lemma list_all2_normalised_unified:
  assumes "list_all2 (normalised kt ku kc) rs items"
  shows "\<forall>it \<in> set items. unified_item it \<and> item_fields it \<and> item_score it = Some 1"
proof
  fix it assume "it \<in> set items"
  then obtain i where "i < length items" "items ! i = it"
    by (auto simp: in_set_conv_nth)
  with assms have "normalised kt ku kc (rs ! i) it"
    by (auto simp: list_all2_conv_all_nth)
  then show "unified_item it \<and> item_fields it \<and> item_score it = Some 1"
    by (rule normalised_unified)
qed

lemma search_duckduckgo_success:
  assumes "\<not> has_key (fst (search_duckduckgo g w q n)) ''error''"
  shows "\<exists>rs items. ddgs_text w q n = Inr rs
           \<and> fst (search_duckduckgo g w q n)
               = [(''results'', PList items), (''query'', PStr q),
                  (''provider'', PStr ''duckduckgo'')]
           \<and> list_all2 (normalised ''title'' ''href'' ''body'') rs items"
  using assms
  by (auto simp: search_duckduckgo_def search_error_def has_key_def
           split: if_splits sum.splits dest: map_exn_result_item)

lemma search_serper_success:
  assumes "\<not> has_key (fst (search_serper g w q n)) ''error''"
  shows "\<exists>resp data organic rs items.
           requests_request w (serper_kwargs g q n) = Inr resp
           \<and> resp_json resp = Inr data
           \<and> py_get data ''organic'' (PList []) = Inr organic
           \<and> py_slice_iter organic n = Inr rs
           \<and> fst (search_serper g w q n)
               = [(''results'', PList items), (''query'', PStr q), (''provider'', PStr ''serper'')]
           \<and> list_all2 (normalised ''title'' ''link'' ''snippet'') rs items"
  using assms
  by (auto simp: search_serper_def search_serper_body_def search_error_def has_key_def
           split: sum.splits option.splits dest: map_exn_result_item)

lemma search_tavily_passthrough:
  assumes "tavily_client g = Some c" and "tavily_search w c q n raw t = Inr (PDict d)"
  shows "fst (search_tavily g w q n t raw) = dict_set d ''provider'' (PStr ''tavily'')"
  using assms by (simp add: search_tavily_def)

lemma map_of_dict_set: "map_of (dict_set d k v) = (map_of d)(k \<mapsto> v)"
  by (induction d k v rule: dict_set.induct) auto

subsection \<open>C4: the items of the adapters\<close>

text \<open>
  C4, as stated, fails for the Tavily adapter, which returns the backend's dictionary as it
  is: an item the backend sends without content or score, or with a score of 2, reaches
  the caller unchanged.
\<close>

theorem search_tavily_items_counterexample:
  "fst (search_tavily all_providers sparse_tavily_world ''rust'' 3 ''general'' False)
     = [(''query'', PStr ''rust''),
        (''results'',
         PList [PDict [(''title'', PStr ''Ownership''), (''url'', PStr ''https://a.test'')],
                PDict [(''title'', PStr ''Borrowing''), (''url'', PStr ''https://b.test''),
                       (''content'', PStr ''rules''), (''score'', PFloat 2)]]),
        (''provider'', PStr ''tavily'')]
   \<and> \<not> item_fields (PDict [(''title'', PStr ''Ownership''), (''url'', PStr ''https://a.test'')])
   \<and> item_score (PDict [(''title'', PStr ''Borrowing''), (''url'', PStr ''https://b.test''),
                         (''content'', PStr ''rules''), (''score'', PFloat 2)]) = Some 2
   \<and> \<not> (2 \<le> (1::real))"
  by (simp add: search_tavily_def all_providers_def sparse_tavily_world_def offline_world_def
        has_key_def)

text \<open>
  C4, amended. Every item in a successful response of the DuckDuckGo adapter and of the
  Serper adapter is a dictionary with exactly the fields title, url, content and score,
  built from the backend's record (keys title, href, body for DuckDuckGo and title, link,
  snippet for Serper) with a missing key read as the empty string, and its score is exactly
  1.0, which lies in [0,1]. The Tavily adapter returns the backend's dictionary with
  \<^verbatim>\<open>provider\<close> set, so its items are the backend's own.
\<close>

theorem adapter_items_unified:
  "(\<not> has_key (fst (search_duckduckgo g w q n)) ''error'' \<longrightarrow>
      (\<exists>rs items. ddgs_text w q n = Inr rs
         \<and> map_of (fst (search_duckduckgo g w q n)) ''results'' = Some (PList items)
         \<and> list_all2 (normalised ''title'' ''href'' ''body'') rs items
         \<and> (\<forall>it \<in> set items. unified_item it \<and> item_fields it
                \<and> (\<exists>s. item_score it = Some s \<and> s = 1 \<and> 0 \<le> s \<and> s \<le> 1))))
   \<and> (\<not> has_key (fst (search_serper g w q n)) ''error'' \<longrightarrow>
      (\<exists>resp data organic rs items.
         requests_request w (serper_kwargs g q n) = Inr resp
         \<and> resp_json resp = Inr data
         \<and> py_get data ''organic'' (PList []) = Inr organic
         \<and> py_slice_iter organic n = Inr rs
         \<and> map_of (fst (search_serper g w q n)) ''results'' = Some (PList items)
         \<and> list_all2 (normalised ''title'' ''link'' ''snippet'') rs items
         \<and> (\<forall>it \<in> set items. unified_item it \<and> item_fields it
                \<and> (\<exists>s. item_score it = Some s \<and> s = 1 \<and> 0 \<le> s \<and> s \<le> 1))))
   \<and> (\<forall>c d. tavily_client g = Some c \<and> tavily_search w c q n raw t = Inr (PDict d) \<longrightarrow>
         fst (search_tavily g w q n t raw) = dict_set d ''provider'' (PStr ''tavily'')
         \<and> map_of (fst (search_tavily g w q n t raw)) ''results'' = map_of d ''results'')"
proof (intro conjI impI allI)
  assume ok: "\<not> has_key (fst (search_duckduckgo g w q n)) ''error''"
  from search_duckduckgo_success [OF ok] obtain rs items where
    h: "ddgs_text w q n = Inr rs"
       "fst (search_duckduckgo g w q n)
          = [(''results'', PList items), (''query'', PStr q), (''provider'', PStr ''duckduckgo'')]"
       "list_all2 (normalised ''title'' ''href'' ''body'') rs items"
    by blast
  from list_all2_normalised_unified [OF h(3)] h
  show "\<exists>rs items. ddgs_text w q n = Inr rs
         \<and> map_of (fst (search_duckduckgo g w q n)) ''results'' = Some (PList items)
         \<and> list_all2 (normalised ''title'' ''href'' ''body'') rs items
         \<and> (\<forall>it \<in> set items. unified_item it \<and> item_fields it
                \<and> (\<exists>s. item_score it = Some s \<and> s = 1 \<and> 0 \<le> s \<and> s \<le> 1))"
    by auto
next
  assume ok: "\<not> has_key (fst (search_serper g w q n)) ''error''"
  from search_serper_success [OF ok] obtain resp data organic rs items where
    h: "requests_request w (serper_kwargs g q n) = Inr resp"
       "resp_json resp = Inr data"
       "py_get data ''organic'' (PList []) = Inr organic"
       "py_slice_iter organic n = Inr rs"
       "fst (search_serper g w q n)
          = [(''results'', PList items), (''query'', PStr q), (''provider'', PStr ''serper'')]"
       "list_all2 (normalised ''title'' ''link'' ''snippet'') rs items"
    by blast
  from list_all2_normalised_unified [OF h(6)] h
  show "\<exists>resp data organic rs items.
         requests_request w (serper_kwargs g q n) = Inr resp
         \<and> resp_json resp = Inr data
         \<and> py_get data ''organic'' (PList []) = Inr organic
         \<and> py_slice_iter organic n = Inr rs
         \<and> map_of (fst (search_serper g w q n)) ''results'' = Some (PList items)
         \<and> list_all2 (normalised ''title'' ''link'' ''snippet'') rs items
         \<and> (\<forall>it \<in> set items. unified_item it \<and> item_fields it
                \<and> (\<exists>s. item_score it = Some s \<and> s = 1 \<and> 0 \<le> s \<and> s \<le> 1))"
    by auto
next
  fix c d
  assume "tavily_client g = Some c \<and> tavily_search w c q n raw t = Inr (PDict d)"
  then show "fst (search_tavily g w q n t raw) = dict_set d ''provider'' (PStr ''tavily'')"
    by (simp add: search_tavily_passthrough)
next
  fix c d
  assume "tavily_client g = Some c \<and> tavily_search w c q n raw t = Inr (PDict d)"
  then show "map_of (fst (search_tavily g w q n t raw)) ''results'' = map_of d ''results''"
    by (simp add: search_tavily_passthrough map_of_dict_set)
qed

theorem adapter_items_unified_witness:
  "\<not> has_key (fst (search_duckduckgo ddg_only ddg_world ''rust ownership model'' 3)) ''error''
   \<and> map_of (fst (search_duckduckgo ddg_only ddg_world ''rust ownership model'' 3)) ''results''
       = Some (PList [PDict [(''title'', PStr ''Ownership''), (''url'', PStr ''https://a.test''),
                             (''content'', PStr ''rules''), (''score'', PFloat 1)],
                      PDict [(''title'', PStr ''Borrowing''), (''url'', PStr []),
                             (''content'', PStr []), (''score'', PFloat 1)]])
   \<and> (\<exists>items. map_of (fst (search_duckduckgo ddg_only ddg_world ''rust ownership model'' 3))
                  ''results'' = Some (PList items)
         \<and> (\<forall>it \<in> set items. unified_item it \<and> item_score it = Some 1))"
proof -
  have ev: "fst (search_duckduckgo ddg_only ddg_world ''rust ownership model'' 3)
            = [(''results'',
                PList [PDict [(''title'', PStr ''Ownership''), (''url'', PStr ''https://a.test''),
                              (''content'', PStr ''rules''), (''score'', PFloat 1)],
                       PDict [(''title'', PStr ''Borrowing''), (''url'', PStr []),
                              (''content'', PStr []), (''score'', PFloat 1)]]),
               (''query'', PStr ''rust ownership model''),
               (''provider'', PStr ''duckduckgo'')]"
    by (simp add: search_duckduckgo_def ddg_only_def ddg_world_def offline_world_def
          result_item_def dict_get_def)
  have ok: "\<not> has_key (fst (search_duckduckgo ddg_only ddg_world ''rust ownership model'' 3))
                ''error''"
    by (simp add: ev has_key_def)
  from adapter_items_unified [of ddg_only ddg_world "''rust ownership model''" 3] ok
  have "\<exists>items. map_of (fst (search_duckduckgo ddg_only ddg_world ''rust ownership model'' 3))
                  ''results'' = Some (PList items)
         \<and> (\<forall>it \<in> set items. unified_item it \<and> item_score it = Some 1)"
    by blast
  with ok show ?thesis
    by (simp add: ev)
qed

subsection \<open>C5: the number of results\<close>

lemma length_slice_to: "0 \<le> n \<Longrightarrow> int (length (slice_to xs n)) \<le> n"
  by (simp add: slice_to_def)

lemma length_py_slice_iter:
  "py_slice_iter v n = Inr rs \<Longrightarrow> 0 \<le> n \<Longrightarrow> int (length rs) \<le> n"
  by (cases v) (auto simp: length_slice_to)

text \<open>
  C5, as stated, fails for the DuckDuckGo adapter, which hands \<^verbatim>\<open>max_results\<close> to the
  backend and returns every item the backend yields: two items come back under a limit of
  1. It also fails for a negative limit, under which the Serper slice drops items from the
  end and still returns some.
\<close>

theorem search_duckduckgo_limit_counterexample:
  "\<not> has_key (fst (search_duckduckgo ddg_only ddg_world ''rust'' 1)) ''error''
   \<and> map_of (fst (search_duckduckgo ddg_only ddg_world ''rust'' 1)) ''results''
       = Some (PList [PDict [(''title'', PStr ''Ownership''), (''url'', PStr ''https://a.test''),
                             (''content'', PStr ''rules''), (''score'', PFloat 1)],
                      PDict [(''title'', PStr ''Borrowing''), (''url'', PStr []),
                             (''content'', PStr []), (''score'', PFloat 1)]])
   \<and> \<not> (2 \<le> (1::int))
   \<and> map_of (fst (search_serper all_providers serper_world ''rust'' (- 1))) ''results''
       = Some (PList [PDict [(''title'', PStr ''Ownership''), (''url'', PStr ''https://a.test''),
                             (''content'', PStr ''rules''), (''score'', PFloat 1)],
                      PDict [(''title'', PStr ''Borrowing''), (''url'', PStr []),
                             (''content'', PStr []), (''score'', PFloat 1)]])
   \<and> \<not> (2 \<le> (- 1::int))"
  by (simp add: search_duckduckgo_def ddg_only_def ddg_world_def offline_world_def
        result_item_def dict_get_def has_key_def search_serper_def search_serper_body_def
        serper_kwargs_def all_providers_def serper_world_def json_response_def
        three_organic_def raise_for_status_def slice_to_def)

text \<open>
  C5, amended. For every query and every \<^verbatim>\<open>max_results\<close> that is not negative, a
  successful response of the Serper adapter contains at most \<^verbatim>\<open>max_results\<close> items,
  whatever the backend sent: the adapter slices the backend's list. The DuckDuckGo and
  Tavily adapters pass \<^verbatim>\<open>max_results\<close> to their backend and do not slice: a successful
  DuckDuckGo response has one item for each item the backend yielded, and the Tavily
  response carries the backend's own results.
\<close>

theorem adapter_result_count:
  "(0 \<le> n \<and> \<not> has_key (fst (search_serper g w q n)) ''error'' \<longrightarrow>
      (\<exists>items. map_of (fst (search_serper g w q n)) ''results'' = Some (PList items)
         \<and> int (length items) \<le> n))
   \<and> (\<not> has_key (fst (search_duckduckgo g w q n)) ''error'' \<longrightarrow>
      (\<exists>rs items. ddgs_text w q n = Inr rs
         \<and> map_of (fst (search_duckduckgo g w q n)) ''results'' = Some (PList items)
         \<and> length items = length rs))
   \<and> (\<forall>c d. tavily_client g = Some c \<and> tavily_search w c q n raw t = Inr (PDict d) \<longrightarrow>
         map_of (fst (search_tavily g w q n t raw)) ''results'' = map_of d ''results'')"
proof (intro conjI impI allI)
  assume a: "0 \<le> n \<and> \<not> has_key (fst (search_serper g w q n)) ''error''"
  then have ok: "\<not> has_key (fst (search_serper g w q n)) ''error''" and n: "0 \<le> n"
    by simp_all
  from search_serper_success [OF ok] obtain organic rs items where
    h: "py_slice_iter organic n = Inr rs"
       "fst (search_serper g w q n)
          = [(''results'', PList items), (''query'', PStr q), (''provider'', PStr ''serper'')]"
       "list_all2 (normalised ''title'' ''link'' ''snippet'') rs items"
    by blast
  have "length items = length rs"
    using h(3) by (simp add: list_all2_lengthD)
  with length_py_slice_iter [OF h(1) n] h(2)
  show "\<exists>items. map_of (fst (search_serper g w q n)) ''results'' = Some (PList items)
         \<and> int (length items) \<le> n"
    by simp
next
  assume ok: "\<not> has_key (fst (search_duckduckgo g w q n)) ''error''"
  from search_duckduckgo_success [OF ok] obtain rs items where
    h: "ddgs_text w q n = Inr rs"
       "fst (search_duckduckgo g w q n)
          = [(''results'', PList items), (''query'', PStr q), (''provider'', PStr ''duckduckgo'')]"
       "list_all2 (normalised ''title'' ''href'' ''body'') rs items"
    by blast
  have "length items = length rs"
    using h(3) by (simp add: list_all2_lengthD)
  with h show "\<exists>rs items. ddgs_text w q n = Inr rs
         \<and> map_of (fst (search_duckduckgo g w q n)) ''results'' = Some (PList items)
         \<and> length items = length rs"
    by simp
next
  fix c d
  assume "tavily_client g = Some c \<and> tavily_search w c q n raw t = Inr (PDict d)"
  then show "map_of (fst (search_tavily g w q n t raw)) ''results'' = map_of d ''results''"
    by (simp add: search_tavily_passthrough map_of_dict_set)
qed

theorem adapter_result_count_witness:
  "(0::int) \<le> 2
   \<and> \<not> has_key (fst (search_serper all_providers serper_world ''rust'' 2)) ''error''
   \<and> map_of (fst (search_serper all_providers serper_world ''rust'' 2)) ''results''
       = Some (PList [PDict [(''title'', PStr ''Ownership''), (''url'', PStr ''https://a.test''),
                             (''content'', PStr ''rules''), (''score'', PFloat 1)],
                      PDict [(''title'', PStr ''Borrowing''), (''url'', PStr []),
                             (''content'', PStr []), (''score'', PFloat 1)]])
   \<and> (\<exists>items. map_of (fst (search_serper all_providers serper_world ''rust'' 2)) ''results''
                  = Some (PList items) \<and> int (length items) \<le> 2)"
proof -
  have ev: "fst (search_serper all_providers serper_world ''rust'' 2)
            = [(''results'',
                PList [PDict [(''title'', PStr ''Ownership''), (''url'', PStr ''https://a.test''),
                              (''content'', PStr ''rules''), (''score'', PFloat 1)],
                       PDict [(''title'', PStr ''Borrowing''), (''url'', PStr []),
                              (''content'', PStr []), (''score'', PFloat 1)]]),
               (''query'', PStr ''rust''), (''provider'', PStr ''serper'')]"
    by (simp add: search_serper_def search_serper_body_def serper_kwargs_def all_providers_def
          serper_world_def offline_world_def json_response_def three_organic_def
          raise_for_status_def result_item_def dict_get_def slice_to_def)
  have ok: "\<not> has_key (fst (search_serper all_providers serper_world ''rust'' 2)) ''error''"
    by (simp add: ev has_key_def)
  from adapter_result_count [of 2 all_providers serper_world "''rust''"] ok
  have "\<exists>items. map_of (fst (search_serper all_providers serper_world ''rust'' 2)) ''results''
                  = Some (PList items) \<and> int (length items) \<le> 2"
    by simp
  with ok show ?thesis
    by (simp add: ev)
qed

subsection \<open>C6: the shapes of a search response\<close>

lemma search_duckduckgo_keys:
  "(\<exists>items. fst (search_duckduckgo g w q n)
               = [(''results'', PList items), (''query'', PStr q),
                  (''provider'', PStr ''duckduckgo'')])
   \<or> (\<exists>msg. fst (search_duckduckgo g w q n) = [(''error'', PStr msg), (''query'', PStr q)])"
  by (auto simp: search_duckduckgo_def search_error_def split: sum.splits)

lemma search_serper_keys:
  "(\<exists>items. fst (search_serper g w q n)
               = [(''results'', PList items), (''query'', PStr q), (''provider'', PStr ''serper'')])
   \<or> (\<exists>msg. fst (search_serper g w q n) = [(''error'', PStr msg), (''query'', PStr q)])"
  by (auto simp: search_serper_def search_serper_body_def search_error_def
           split: sum.splits option.splits)

lemma search_tavily_keys:
  "(\<exists>c d. tavily_client g = Some c \<and> tavily_search w c q n raw t = Inr (PDict d)
          \<and> fst (search_tavily g w q n t raw) = dict_set d ''provider'' (PStr ''tavily''))
   \<or> (\<exists>msg. fst (search_tavily g w q n t raw) = [(''error'', PStr msg), (''query'', PStr q)])"
proof (cases "tavily_client g")
  case None
  then show ?thesis by (simp add: search_tavily_def search_error_def)
next
  case (Some c)
  show ?thesis
  proof (cases "tavily_search w c q n raw t")
    case (Inl e)
    with Some show ?thesis by (simp add: search_tavily_def search_error_def)
  next
    case (Inr v)
    with Some show ?thesis
      by (cases v) (simp_all add: search_tavily_def search_error_def)
  qed
qed

lemma has_key_dict_set: "has_key (dict_set d k v) k' = (k' = k \<or> has_key d k')"
  by (simp add: has_key_def map_of_dict_set)

lemma web_search_result_cases:
  "fst (web_search g w q n t r) = no_provider_error q
   \<or> (\<not> has_key (fst (web_search g w q n t r)) ''error''
      \<and> (fst (web_search g w q n t r) = fst (search_tavily g w q n t r)
         \<or> fst (web_search g w q n t r) = fst (search_serper g w q n)
         \<or> fst (web_search g w q n t r) = fst (search_duckduckgo g w q n)))"
  by (auto simp: web_search_def web_search_serper_def web_search_ddg_def split: prod.splits)

text \<open>
  C6, as stated, fails for the Tavily adapter and so for \<^verbatim>\<open>web_search\<close>. A Tavily
  answer without a \<^verbatim>\<open>query\<close> is returned by \<^verbatim>\<open>web_search\<close> with no \<^verbatim>\<open>error\<close> key
  and yet without the keys of the success shape; a Tavily answer that itself carries an
  \<^verbatim>\<open>error\<close> key leaves the adapter with the keys of both shapes.
\<close>

theorem search_tavily_shape_counterexample:
  "fst (web_search all_providers bare_tavily_world ''rust'' 3 ''general'' False)
     = [(''results'', PList []), (''provider'', PStr ''tavily'')]
   \<and> \<not> has_key (fst (web_search all_providers bare_tavily_world ''rust'' 3 ''general'' False))
          ''error''
   \<and> \<not> success_keys (fst (web_search all_providers bare_tavily_world ''rust'' 3 ''general'' False))
   \<and> \<not> failure_keys (fst (web_search all_providers bare_tavily_world ''rust'' 3 ''general'' False))
   \<and> fst (search_tavily all_providers error_tavily_world ''rust'' 3 ''general'' False)
       = [(''error'', PStr ''over quota''), (''results'', PList []), (''query'', PStr ''rust''),
          (''provider'', PStr ''tavily'')]
   \<and> success_keys (fst (search_tavily all_providers error_tavily_world ''rust'' 3 ''general'' False))
   \<and> failure_keys (fst (search_tavily all_providers error_tavily_world ''rust'' 3 ''general'' False))"
  by (simp add: web_search_def search_tavily_def all_providers_def bare_tavily_world_def
        error_tavily_world_def offline_world_def client_truthy_def has_key_def
        success_keys_def failure_keys_def)

text \<open>
  C6, amended. Every response of the DuckDuckGo adapter and of the Serper adapter has
  exactly the keys results, query, provider or exactly the keys error, query, with the
  query it was given. The Tavily adapter returns either exactly error and query, or the
  backend's own dictionary with \<^verbatim>\<open>provider\<close> set to tavily, whatever other keys that
  dictionary has. \<^verbatim>\<open>web_search\<close> returns either exactly the no-provider error with
  the query, or a response without an \<^verbatim>\<open>error\<close> key that carries a \<^verbatim>\<open>provider\<close> key
  and is the response of one of the three adapters; it never returns a response with both
  \<^verbatim>\<open>error\<close> and \<^verbatim>\<open>provider\<close>.
\<close>

theorem search_response_shapes:
  "((keys (fst (search_duckduckgo g w q n)) = [''results'', ''query'', ''provider'']
     \<or> keys (fst (search_duckduckgo g w q n)) = [''error'', ''query''])
    \<and> map_of (fst (search_duckduckgo g w q n)) ''query'' = Some (PStr q))
   \<and> ((keys (fst (search_serper g w q n)) = [''results'', ''query'', ''provider'']
        \<or> keys (fst (search_serper g w q n)) = [''error'', ''query''])
       \<and> map_of (fst (search_serper g w q n)) ''query'' = Some (PStr q))
   \<and> ((\<exists>c d. tavily_client g = Some c \<and> tavily_search w c q n raw t = Inr (PDict d)
              \<and> fst (search_tavily g w q n t raw) = dict_set d ''provider'' (PStr ''tavily''))
       \<or> (keys (fst (search_tavily g w q n t raw)) = [''error'', ''query'']
          \<and> map_of (fst (search_tavily g w q n t raw)) ''query'' = Some (PStr q)))
   \<and> ((fst (web_search g w q n t raw) = no_provider_error q
        \<and> keys (fst (web_search g w q n t raw)) = [''error'', ''query'']
        \<and> map_of (fst (web_search g w q n t raw)) ''query'' = Some (PStr q)
        \<and> has_key (fst (web_search g w q n t raw)) ''provider'' = False)
       \<or> (has_key (fst (web_search g w q n t raw)) ''error'' = False
          \<and> has_key (fst (web_search g w q n t raw)) ''provider''
          \<and> (fst (web_search g w q n t raw) = fst (search_tavily g w q n t raw)
             \<or> fst (web_search g w q n t raw) = fst (search_serper g w q n)
             \<or> fst (web_search g w q n t raw) = fst (search_duckduckgo g w q n))))"
proof (intro conjI)
  show "keys (fst (search_duckduckgo g w q n)) = [''results'', ''query'', ''provider'']
        \<or> keys (fst (search_duckduckgo g w q n)) = [''error'', ''query'']"
    using search_duckduckgo_keys [of g w q n] by (auto simp: keys_def)
  show "map_of (fst (search_duckduckgo g w q n)) ''query'' = Some (PStr q)"
    using search_duckduckgo_keys [of g w q n] by auto
  show "keys (fst (search_serper g w q n)) = [''results'', ''query'', ''provider'']
        \<or> keys (fst (search_serper g w q n)) = [''error'', ''query'']"
    using search_serper_keys [of g w q n] by (auto simp: keys_def)
  show "map_of (fst (search_serper g w q n)) ''query'' = Some (PStr q)"
    using search_serper_keys [of g w q n] by auto
  show "(\<exists>c d. tavily_client g = Some c \<and> tavily_search w c q n raw t = Inr (PDict d)
              \<and> fst (search_tavily g w q n t raw) = dict_set d ''provider'' (PStr ''tavily''))
        \<or> (keys (fst (search_tavily g w q n t raw)) = [''error'', ''query'']
           \<and> map_of (fst (search_tavily g w q n t raw)) ''query'' = Some (PStr q))"
    using search_tavily_keys [of g w q n raw t] by (auto simp: keys_def)
  show "(fst (web_search g w q n t raw) = no_provider_error q
        \<and> keys (fst (web_search g w q n t raw)) = [''error'', ''query'']
        \<and> map_of (fst (web_search g w q n t raw)) ''query'' = Some (PStr q)
        \<and> has_key (fst (web_search g w q n t raw)) ''provider'' = False)
       \<or> (has_key (fst (web_search g w q n t raw)) ''error'' = False
          \<and> has_key (fst (web_search g w q n t raw)) ''provider''
          \<and> (fst (web_search g w q n t raw) = fst (search_tavily g w q n t raw)
             \<or> fst (web_search g w q n t raw) = fst (search_serper g w q n)
             \<or> fst (web_search g w q n t raw) = fst (search_duckduckgo g w q n)))"
  proof (cases "fst (web_search g w q n t raw) = no_provider_error q")
    case True
    then show ?thesis
      by (simp add: no_provider_error_def keys_def has_key_def)
  next
    case False
    with web_search_result_cases [of g w q n t raw]
    have ok: "\<not> has_key (fst (web_search g w q n t raw)) ''error''"
      and src: "fst (web_search g w q n t raw) = fst (search_tavily g w q n t raw)
                \<or> fst (web_search g w q n t raw) = fst (search_serper g w q n)
                \<or> fst (web_search g w q n t raw) = fst (search_duckduckgo g w q n)"
      by auto
    have "has_key (fst (web_search g w q n t raw)) ''provider''"
      using src
    proof (elim disjE)
      assume e: "fst (web_search g w q n t raw) = fst (search_tavily g w q n t raw)"
      with ok search_tavily_keys [of g w q n raw t] show ?thesis
        by (auto simp: has_key_dict_set) (simp add: has_key_def)
    next
      assume e: "fst (web_search g w q n t raw) = fst (search_serper g w q n)"
      with ok search_serper_keys [of g w q n] show ?thesis
        by (auto simp: has_key_def)
    next
      assume e: "fst (web_search g w q n t raw) = fst (search_duckduckgo g w q n)"
      with ok search_duckduckgo_keys [of g w q n] show ?thesis
        by (auto simp: has_key_def)
    qed
    with ok src show ?thesis by simp
  qed
qed

theorem search_response_shapes_witness:
  "keys (fst (web_search all_providers serper_world ''rust'' 3 ''general'' False))
     = [''results'', ''query'', ''provider'']
   \<and> has_key (fst (web_search all_providers serper_world ''rust'' 3 ''general'' False)) ''error''
       = False
   \<and> has_key (fst (web_search all_providers serper_world ''rust'' 3 ''general'' False))
       ''provider''
   \<and> keys (fst (search_tavily all_providers serper_world ''rust'' 3 ''general'' False))
       = [''error'', ''query'']"
proof -
  let ?ws = "fst (web_search all_providers serper_world ''rust'' 3 ''general'' False)"
  have np: "?ws \<noteq> no_provider_error ''rust''"
    by (simp add: web_search_def web_search_serper_def search_tavily_def search_serper_def
          search_serper_body_def serper_kwargs_def all_providers_def serper_world_def
          offline_world_def json_response_def three_organic_def raise_for_status_def
          result_item_def dict_get_def search_error_def has_key_def client_truthy_def
          str_truthy_def slice_to_def no_provider_error_def)
  have k: "keys ?ws = [''results'', ''query'', ''provider'']"
    by (simp add: web_search_def web_search_serper_def search_tavily_def search_serper_def
          search_serper_body_def serper_kwargs_def all_providers_def serper_world_def
          offline_world_def json_response_def three_organic_def raise_for_status_def
          result_item_def dict_get_def search_error_def has_key_def client_truthy_def
          str_truthy_def slice_to_def keys_def)
  have tv: "tavily_search serper_world (TavilyClient ''tvly-key'') ''rust'' 3 False ''general''
            = Inl (Raised Exception ''quota exceeded'')"
    by (simp add: serper_world_def offline_world_def)
  have tc: "tavily_client all_providers = Some (TavilyClient ''tvly-key'')"
    by (simp add: all_providers_def)
  from search_response_shapes [of all_providers serper_world "''rust''" 3 False "''general''"]
       np tv tc
  have "has_key ?ws ''error'' = False \<and> has_key ?ws ''provider''
        \<and> keys (fst (search_tavily all_providers serper_world ''rust'' 3 ''general'' False))
            = [''error'', ''query'']"
    by auto
  with k show ?thesis by simp
qed

subsection \<open>C7: fetch\_url on an error status\<close>

text \<open>
  C7, as stated, fails for a status of 600 or more: \<^verbatim>\<open>raise_for_status\<close> raises for
  the 4xx and 5xx ranges only, so the page of a response with status 600 is converted and
  returned in the success shape.
\<close>

theorem fetch_url_status_600_counterexample:
  "requests_request (page_world 600) (fetch_kwargs ''http://a.test/odd'' 30)
     = Inr (html_response 600 ''Unknown'' ''http://a.test/odd'' ''<p>Hello</p>'')
   \<and> 400 \<le> status_code (html_response 600 ''Unknown'' ''http://a.test/odd'' ''<p>Hello</p>'')
   \<and> fetch_url (page_world 600) ''http://a.test/odd'' 30
       = Inr [(''url'', PStr ''http://a.test/odd''), (''markdown_content'', PStr ''Hello''),
              (''status_code'', PInt 600), (''content_length'', PInt 5)]
   \<and> has_key [(''url'', PStr ''http://a.test/odd''), (''markdown_content'', PStr ''Hello''),
               (''status_code'', PInt 600), (''content_length'', PInt 5)] ''error'' = False"
  by (simp add: fetch_url_def fetch_url_body_def fetch_kwargs_def page_world_def
        status_world_def offline_world_def html_response_def reason_phrase_def
        raise_for_status_def has_key_def)

text \<open>
  C7, amended. For every url and timeout \<^verbatim>\<open>fetch_url\<close> returns a result and raises
  nothing. If the response has a status from 400 to 599 (a 404, say), the result is
  exactly the error shape: \<^verbatim>\<open>url\<close> is the url that was asked for and \<^verbatim>\<open>error\<close>
  is "Fetch URL error: " followed by the status code, "Client Error" or "Server Error",
  the reason phrase and the response's url; there is no markdown body.
\<close>

theorem fetch_url_error_status:
  "(\<exists>res. fetch_url w url timeout = Inr res)
   \<and> (\<forall>resp. requests_request w (fetch_kwargs url timeout) = Inr resp
               \<and> 400 \<le> status_code resp \<and> status_code resp < 600 \<longrightarrow>
         fetch_url w url timeout
         = Inr [(''error'',
                 PStr (''Fetch URL error: '' @ str_int (status_code resp)
                       @ (if status_code resp < 500 then '' Client Error: ''
                          else '' Server Error: '')
                       @ reason resp @ '' for url: '' @ resp_url resp)),
                (''url'', PStr url)])"
  by (auto simp: fetch_url_def fetch_url_body_def raise_for_status_def
           split: sum.splits option.splits)

theorem fetch_url_error_status_witness:
  "requests_request (page_world 404) (fetch_kwargs ''http://a.test/missing'' 30)
     = Inr (html_response 404 ''Not Found'' ''http://a.test/missing'' ''<p>Hello</p>'')
   \<and> fetch_url (page_world 404) ''http://a.test/missing'' 30
       = Inr [(''error'',
               PStr ''Fetch URL error: 404 Client Error: Not Found for url: http://a.test/missing''),
              (''url'', PStr ''http://a.test/missing'')]"
proof -
  have got: "requests_request (page_world 404) (fetch_kwargs ''http://a.test/missing'' 30)
             = Inr (html_response 404 ''Not Found'' ''http://a.test/missing'' ''<p>Hello</p>'')"
    by (simp add: page_world_def status_world_def offline_world_def fetch_kwargs_def
          reason_phrase_def)
  have code: "str_int 404 = ''404''"
    by code_simp
  from fetch_url_error_status [of "page_world 404" "''http://a.test/missing''" 30] got
  have "fetch_url (page_world 404) ''http://a.test/missing'' 30
        = Inr [(''error'',
                PStr (''Fetch URL error: '' @ str_int 404 @ '' Client Error: '' @ ''Not Found''
                      @ '' for url: '' @ ''http://a.test/missing'')),
               (''url'', PStr ''http://a.test/missing'')]"
    by (simp add: html_response_def)
  with got code show ?thesis by simp
qed

subsection \<open>C9: the reported provider and the provider tried\<close>

lemma get_search_provider_None_iff:
  "get_search_provider g = None \<longleftrightarrow> \<not> is_search_available g"
  by (simp add: get_search_provider_def is_search_available_def)

text \<open>
  C9. \<^verbatim>\<open>get_search_provider\<close> and \<^verbatim>\<open>is_search_available\<close> test the Serper key with
  \<^verbatim>\<open>is not None\<close>, \<^verbatim>\<open>web_search\<close> tests its truth value. With the key set to the
  empty string and DuckDuckGo installed, the reported provider is Serper, while
  \<^verbatim>\<open>web_search\<close> invokes DuckDuckGo and nothing else, for every query and world; with
  DuckDuckGo absent as well, a provider is reported available and \<^verbatim>\<open>web_search\<close>
  answers that none is.
\<close>

theorem get_search_provider_empty_key:
  "get_search_provider empty_key_registry = Some ''Serper''
   \<and> is_search_available empty_key_registry
   \<and> invoked (snd (web_search empty_key_registry w q n t r)) = [DuckDuckGo]
   \<and> is_search_available (empty_key_registry\<lparr>ddg_available := False\<rparr>)
   \<and> web_search (empty_key_registry\<lparr>ddg_available := False\<rparr>) w q n t r
       = (no_provider_error q, [])"
  by (simp add: get_search_provider_def is_search_available_def empty_key_registry_def
        web_search_def web_search_serper_def web_search_ddg_def search_duckduckgo_def
        client_truthy_def str_truthy_def split: prod.splits)

theorem get_search_provider_empty_key_witness:
  "get_search_provider empty_key_registry = Some ''Serper''
   \<and> invoked (snd (web_search empty_key_registry ddg_world ''rust'' 3 ''general'' False))
       = [DuckDuckGo]
   \<and> web_search (empty_key_registry\<lparr>ddg_available := False\<rparr>) ddg_world ''rust'' 3
         ''general'' False
       = (no_provider_error ''rust'', [])"
  using get_search_provider_empty_key [of ddg_world "''rust''" 3 "''general''" False]
  by simp

end
